theory Spec2Isabelle
  imports Main "HOL-Library.AList"
begin

section \<open>JavaScript values\<close>

text \<open>
  The generator of \<^verbatim>\<open>lib/dialects/mysql/query-generator.js\<close> works on JavaScript
  strings, plain objects and arrays. A string is a \<^typ>\<open>string\<close> (one \<^typ>\<open>char\<close> per
  code unit; code units above 255 are outside the model). A plain object is the list of its
  own enumerable properties in enumeration order, with pairwise different keys; numbers are
  integers.
\<close>

datatype jv = JUndef | JNull | JBool bool | JNum int | JStr string
  | JArr "jv list" | JObj "(string \<times> jv) list"

type_synonym obj = "(string \<times> jv) list"

text \<open>\<^verbatim>\<open>!!v\<close>: the values that count as true in a condition.\<close>

fun truthy :: "jv \<Rightarrow> bool" where
  "truthy JUndef = False"
| "truthy JNull = False"
| "truthy (JBool b) = b"
| "truthy (JNum n) = (n \<noteq> 0)"
| "truthy (JStr s) = (s \<noteq> [])"
| "truthy (JArr xs) = True"
| "truthy (JObj kvs) = True"

text \<open>\<^verbatim>\<open>o.k\<close> reads a property (\<^verbatim>\<open>undefined\<close> when absent); \<^verbatim>\<open>o.k = v\<close> overwrites
  it in place or appends it.\<close>

definition get_prop :: "obj \<Rightarrow> string \<Rightarrow> jv" where
  "get_prop ob k = (case map_of ob k of None \<Rightarrow> JUndef | Some v \<Rightarrow> v)"

definition set_prop :: "obj \<Rightarrow> string \<Rightarrow> jv \<Rightarrow> obj" where
  "set_prop ob k v = AList.update k v ob"

text \<open>\<^verbatim>\<open>Array.prototype.join\<close> on an array of strings.\<close>

fun join :: "string \<Rightarrow> string list \<Rightarrow> string" where
  "join sep [] = []"
| "join sep [x] = x"
| "join sep (x # y # ys) = x @ sep @ join sep (y # ys)"

text \<open>\<^verbatim>\<open>s.indexOf(p) === 0\<close>, and \<^verbatim>\<open>_.includes(s, sub)\<close> on strings.\<close>

fun starts_with :: "string \<Rightarrow> string \<Rightarrow> bool" where
  "starts_with [] s = True"
| "starts_with (p # ps) [] = False"
| "starts_with (p # ps) (c # cs) = (p = c \<and> starts_with ps cs)"

fun str_includes :: "string \<Rightarrow> string \<Rightarrow> bool" where
  "str_includes [] sub = (sub = [])"
| "str_includes (c # cs) sub = (starts_with sub (c # cs) \<or> str_includes cs sub)"

text \<open>\<^verbatim>\<open>s.replace(/pat/, '')\<close> for a pattern without metacharacters: the first occurrence
  is removed.\<close>

fun replace_first :: "string \<Rightarrow> string \<Rightarrow> string" where
  "replace_first [] pat = []"
| "replace_first (c # cs) pat =
     (if starts_with pat (c # cs) then drop (length pat) (c # cs)
      else c # replace_first cs pat)"

text \<open>The characters a dot of a regular expression does not match (below code unit 256).\<close>

definition line_terminator :: "char \<Rightarrow> bool" where
  "line_terminator c = (c = CHR 0x0A \<or> c = CHR 0x0D)"

text \<open>
  \<^verbatim>\<open>s.match(/^(.+) (REFERENCES.*)$/)\<close>: both groups of the match, or \<^verbatim>\<open>None\<close> for
  \<^verbatim>\<open>null\<close>. The first group is greedy, so the split is at the last \<^verbatim>\<open>REFERENCES\<close> that
  follows a space and a non-empty head; a dot matches no line terminator and the pattern is
  anchored at both ends, so a string with a line terminator does not match.
\<close>

fun greedy_split :: "string \<Rightarrow> (string \<times> string) option" where
  "greedy_split [] = None"
| "greedy_split (c # cs) =
     (case greedy_split cs of
        Some (a, b) \<Rightarrow> Some (c # a, b)
      | None \<Rightarrow> if starts_with '' REFERENCES'' cs then Some ([c], tl cs) else None)"

definition match_references :: "string \<Rightarrow> (string \<times> string) option" where
  "match_references s = (if list_ex line_terminator s then None else greedy_split s)"

text \<open>
  \<^verbatim>\<open>s.replace(/.+?(?=REFERENCES)/, '')\<close>: from the first position where it is possible,
  the shortest non-empty run of characters other than line terminators that ends right
  before a \<^verbatim>\<open>REFERENCES\<close> is removed.
\<close>

fun lazy_scan :: "string \<Rightarrow> string option" where
  "lazy_scan [] = None"
| "lazy_scan (c # cs) =
     (if line_terminator c then None
      else if starts_with ''REFERENCES'' cs then Some cs
      else lazy_scan cs)"

fun strip_before_references :: "string \<Rightarrow> string" where
  "strip_before_references [] = []"
| "strip_before_references (c # cs) =
     (case lazy_scan (c # cs) of
        Some rest \<Rightarrow> rest
      | None \<Rightarrow> c # strip_before_references cs)"

text \<open>\<^verbatim>\<open>String.prototype.trim\<close>: white space and line terminators below code unit 256.\<close>

definition white_space :: "char \<Rightarrow> bool" where
  "white_space c = (c \<in> set [CHR 0x09, CHR 0x0A, CHR 0x0B, CHR 0x0C, CHR 0x0D, CHR 0x20, CHR 0xA0])"

definition trim :: "string \<Rightarrow> string" where
  "trim s = rev (dropWhile white_space (rev (dropWhile white_space s)))"

text \<open>String conversion of a value, as string concatenation and templates apply it.\<close>

fun dec :: "nat \<Rightarrow> string" where
  "dec n = (if n < 10 then [''0123456789'' ! n]
            else dec (n div 10) @ [''0123456789'' ! (n mod 10)])"

declare dec.simps [simp del]

definition decimal :: "int \<Rightarrow> string" where
  "decimal n = (if n < 0 then CHR ''-'' # dec (nat (- n)) else dec (nat n))"

text \<open>
  A number prints in decimal as long as it is a safe integer (below \<^verbatim>\<open>2^53\<close> in
  magnitude). Beyond that the runtime rounds the digits or writes an exponent: the printing
  of those numbers is the parameter \<^verbatim>\<open>num\<close>.
\<close>

fun js_toString :: "(int \<Rightarrow> string) \<Rightarrow> jv \<Rightarrow> string" where
  "js_toString num JUndef = ''undefined''"
| "js_toString num JNull = ''null''"
| "js_toString num (JBool b) = (if b then ''true'' else ''false'')"
| "js_toString num (JNum n) =
     (if - 9007199254740992 < n \<and> n < 9007199254740992 then decimal n else num n)"
| "js_toString num (JStr s) = s"
| "js_toString num (JArr xs) =
     join '','' (map (\<lambda>x. if x = JUndef \<or> x = JNull then [] else js_toString num x) xs)"
| "js_toString num (JObj kvs) = ''[object Object]''"

text \<open>What a lodash template writes for \<^verbatim>\<open><%= v %>\<close>: nothing for \<^verbatim>\<open>null\<close> and
  \<^verbatim>\<open>undefined\<close>.\<close>

definition interpolate :: "(int \<Rightarrow> string) \<Rightarrow> jv \<Rightarrow> string" where
  "interpolate num v = (if v = JUndef \<or> v = JNull then [] else js_toString num v)"

text \<open>A table name is a bare string or a \<^verbatim>\<open>{schema, tableName}\<close> pair.\<close>

datatype tname = TableStr string | TableObj "string option" string

definition tname_toString :: "tname \<Rightarrow> string" where
  "tname_toString t = (case t of TableStr s \<Rightarrow> s | TableObj sch s \<Rightarrow> ''[object Object]'')"

text \<open>The faults of the source are values.\<close>

datatype error = TypeError

section \<open>Descriptors\<close>

text \<open>
  A column type is a raw SQL type string, or a type object: its \<^verbatim>\<open>toString\<close>, which
  receives the escaper, its \<^verbatim>\<open>_binary\<close> property and whether it is an instance of
  \<^verbatim>\<open>DataTypes.JSON\<close>.
\<close>

datatype dtype = TypeStr string | TypeObj "(jv \<Rightarrow> string) \<Rightarrow> string" jv bool

fun type_toString :: "dtype \<Rightarrow> (jv \<Rightarrow> string) \<Rightarrow> string" where
  "type_toString (TypeStr s) esc = s"
| "type_toString (TypeObj render b j) esc = render esc"

fun type_binary :: "dtype \<Rightarrow> jv" where
  "type_binary (TypeStr s) = JUndef"
| "type_binary (TypeObj render b j) = b"

fun type_is_string :: "dtype \<Rightarrow> string \<Rightarrow> bool" where
  "type_is_string (TypeStr s) s' = (s = s')"
| "type_is_string (TypeObj render b j) s' = False"

fun instanceof_JSON :: "dtype \<Rightarrow> bool" where
  "instanceof_JSON (TypeStr s) = False"
| "instanceof_JSON (TypeObj render b j) = j"

record reference =
  model :: tname
  key :: "string option"

text \<open>
  The attribute descriptor. The record makes \<^verbatim>\<open>type\<close> mandatory and the names and
  actions strings: the malformed descriptors on which the source faults are outside the
  type. An absent string property is \<^verbatim>\<open>None\<close>.
\<close>

record attribute =
  type :: dtype
  allowNull :: jv
  autoIncrement :: jv
  defaultValue :: jv
  unique :: jv
  primaryKey :: jv
  after :: "string option"
  references :: "reference option"
  onDelete :: "string option"
  onUpdate :: "string option"
  field :: "string option"

text \<open>\<^verbatim>\<open>{type: t}\<close>, the descriptor a bare type is promoted to.\<close>

definition bare_attribute :: "dtype \<Rightarrow> attribute" where
  "bare_attribute t =
     \<lparr> type = t, allowNull = JUndef, autoIncrement = JUndef, defaultValue = JUndef,
       unique = JUndef, primaryKey = JUndef, after = None, references = None,
       onDelete = None, onUpdate = None, field = None \<rparr>"

datatype attribute_arg = Bare dtype | Desc attribute

text \<open>A string property counts as set when it is present and not empty.\<close>

definition str_truthy :: "string option \<Rightarrow> bool" where
  "str_truthy s = (s \<noteq> None \<and> s \<noteq> Some [])"

record attribute_options =
  context_name :: jv
  foreignKey :: "string option"

text \<open>An entry of \<^verbatim>\<open>options.uniqueKeys\<close>, which is an object keyed by index name or
  an array.\<close>

record unique_key =
  index_fields :: "string list"
  singleField :: jv

datatype unique_keys = UniqueObject "(string \<times> unique_key) list" | UniqueArray "unique_key list"

text \<open>
  The options of \<^verbatim>\<open>createTableQuery\<close>. \<^verbatim>\<open>engine\<close> and \<^verbatim>\<open>charset\<close> are
  \<^verbatim>\<open>None\<close> when the caller's object has no such property, and then take the defaults
  \<^verbatim>\<open>'InnoDB'\<close> and \<^verbatim>\<open>null\<close>.
\<close>

record create_options =
  engine :: "jv option"
  charset :: "jv option"
  comment :: jv
  collate :: jv
  initialAutoIncrement :: jv
  uniqueKeys :: "unique_keys option"

definition no_create_options :: create_options where
  "no_create_options =
     \<lparr> engine = None, charset = None, comment = JUndef, collate = JUndef,
       initialAutoIncrement = JUndef, uniqueKeys = None \<rparr>"

text \<open>
  The key the abstract predicate compiler receives: a column name, or a literal SQL
  expression (\<^verbatim>\<open>new Utils.Literal(sql)\<close>).
\<close>

datatype wkey = KStr string | KLit string

text \<open>\<^verbatim>\<open>options.prefix\<close>: a literal, or a table name.\<close>

datatype prefix_arg = PrefixLiteral string | PrefixTable tname

text \<open>The part of a model \<^verbatim>\<open>whereItemQuery\<close> reads; a missing map is \<^verbatim>\<open>None\<close>.\<close>

record model_desc =
  rawAttributes :: "(string \<times> attribute) list option"
  fieldRawAttributesMap :: "(string \<times> attribute) list option"

text \<open>The options of \<^verbatim>\<open>whereItemQuery\<close>: \<^verbatim>\<open>field\<close>, \<^verbatim>\<open>model\<close>, \<^verbatim>\<open>type\<close>,
  \<^verbatim>\<open>prefix\<close> and \<^verbatim>\<open>json\<close>.\<close>

record where_options =
  opt_field :: "attribute option"
  opt_model :: "model_desc option"
  opt_type :: "dtype option"
  prefix :: "prefix_arg option"
  json :: jv

definition no_where_options :: where_options where
  "no_where_options =
     \<lparr> opt_field = None, opt_model = None, opt_type = None, prefix = None, json = JUndef \<rparr>"

section \<open>Collaborators\<close>

text \<open>
  The generator calls functions of \<^verbatim>\<open>Utils\<close> and of the abstract query generator it
  extends, and three functions of the JavaScript runtime (\<^verbatim>\<open>toUpperCase\<close>,
  \<^verbatim>\<open>JSON.stringify\<close> and the printing of a number that is not a safe integer). They are
  parameters of the model; each is assumed to return.
  \<^verbatim>\<open>absWhereItemQuery\<close> is \<^verbatim>\<open>AbstractQueryGenerator.whereItemQuery\<close>, and
  \<^verbatim>\<open>absHandleSequelizeMethod\<close> is \<^verbatim>\<open>AbstractQueryGenerator.handleSequelizeMethod\<close> on
  a literal.
\<close>

record collab =
  addTicks :: "string \<Rightarrow> string \<Rightarrow> string"
  quoteTable :: "tname \<Rightarrow> string"
  quoteIdentifiers :: "tname \<Rightarrow> string"
  escape :: "jv \<Rightarrow> string"
  getWhereConditions :: "jv \<Rightarrow> string"
  insertQuery :: "tname \<Rightarrow> jv \<Rightarrow> jv \<Rightarrow> obj \<Rightarrow> string"
  defaultValueSchemable :: "jv \<Rightarrow> bool"
  formatReferences :: "attribute \<Rightarrow> attribute"
  underscore :: "string \<Rightarrow> string"
  absWhereItemQuery :: "wkey \<Rightarrow> jv \<Rightarrow> where_options \<Rightarrow> string"
  absHandleSequelizeMethod :: "string \<Rightarrow> string"
  toUpperCase :: "string \<Rightarrow> string"
  stringify :: "jv \<Rightarrow> string"
  numberToString :: "int \<Rightarrow> string"

text \<open>
  Modelled from the spec: the collaborators are not among the sources, so the examples run
  on an instance that follows the spec's description of them. \<^verbatim>\<open>addTicks\<close> wraps a
  name in the quote character, \<^verbatim>\<open>quoteTable\<close> resolves a schema-qualified name into one
  quoted reference, \<^verbatim>\<open>escape\<close> renders a value as an SQL literal, a missing where
  condition compiles to nothing, the insert assembler appends the
  \<^verbatim>\<open>onDuplicate\<close> text after \<^verbatim>\<open>ON DUPLICATE KEY\<close>, and a default value is schemable
  when it is defined.
\<close>

definition spec_addTicks :: "string \<Rightarrow> string \<Rightarrow> string" where
  "spec_addTicks s tickChar = tickChar @ s @ tickChar"

definition spec_quoteTable :: "tname \<Rightarrow> string" where
  "spec_quoteTable t =
     (case t of
        TableStr s \<Rightarrow> spec_addTicks s ''`''
      | TableObj None s \<Rightarrow> spec_addTicks s ''`''
      | TableObj (Some sch) s \<Rightarrow> spec_addTicks (sch @ ''.'' @ s) ''`'')"

fun spec_escape_chars :: "string \<Rightarrow> string" where
  "spec_escape_chars [] = []"
| "spec_escape_chars (c # cs) =
     (if c = CHR 0x27 \<or> c = CHR 0x5C then CHR 0x5C # c # spec_escape_chars cs
      else c # spec_escape_chars cs)"

definition spec_escape :: "jv \<Rightarrow> string" where
  "spec_escape v =
     (case v of
        JUndef \<Rightarrow> ''NULL''
      | JNull \<Rightarrow> ''NULL''
      | JBool b \<Rightarrow> js_toString decimal v
      | JNum n \<Rightarrow> js_toString decimal v
      | _ \<Rightarrow> [CHR 0x27] @ spec_escape_chars (js_toString decimal v) @ [CHR 0x27])"

definition spec_getWhereConditions :: "jv \<Rightarrow> string" where
  "spec_getWhereConditions w = (case w of JStr s \<Rightarrow> s | _ \<Rightarrow> [])"

definition spec_insertQuery :: "tname \<Rightarrow> jv \<Rightarrow> jv \<Rightarrow> obj \<Rightarrow> string" where
  "spec_insertQuery t insertValues attrs options =
     ''INSERT INTO '' @ spec_quoteTable t @ '' ON DUPLICATE KEY ''
       @ js_toString decimal (get_prop options ''onDuplicate'')"

definition spec_defaultValueSchemable :: "jv \<Rightarrow> bool" where
  "spec_defaultValueSchemable v = (v \<noteq> JUndef)"

definition ascii_upper :: "string \<Rightarrow> string" where
  "ascii_upper s =
     map (\<lambda>c. case map_of (zip ''abcdefghijklmnopqrstuvwxyz'' ''ABCDEFGHIJKLMNOPQRSTUVWXYZ'') c of
                Some u \<Rightarrow> u | None \<Rightarrow> c) s"

text \<open>
  Modelled from the spec: the abstract predicate compiler is not among the sources. The
  spec's examples render an equality leaf on a key as the key, \<^verbatim>\<open>=\<close> and the value in
  single quotes, and a \<^verbatim>\<open>$gt\<close> leaf by that operator's comparison; an operator map
  renders its leaves joined by \<^verbatim>\<open>AND\<close>. A literal key is written as it is, a column
  name quoted.
\<close>

definition spec_operator :: "string \<Rightarrow> string" where
  "spec_operator op =
     (case map_of [(''$eq'', ''=''), (''$ne'', ''!=''), (''$gt'', ''>''), (''$gte'', ''>=''),
                   (''$lt'', ''<''), (''$lte'', ''<='')] op of
        Some symbol \<Rightarrow> symbol
      | None \<Rightarrow> op)"

definition spec_absWhereItemQuery :: "wkey \<Rightarrow> jv \<Rightarrow> where_options \<Rightarrow> string" where
  "spec_absWhereItemQuery k v options =
     (let col = (case k of KLit sql \<Rightarrow> sql | KStr name \<Rightarrow> spec_addTicks name ''`'');
          leaf = (\<lambda>op x. col @ '' '' @ spec_operator op @ '' '' @ [CHR 0x27]
                    @ js_toString decimal x @ [CHR 0x27])
      in case v of
           JObj ops \<Rightarrow> join '' AND '' (map (\<lambda>(op, x). leaf op x) ops)
         | _ \<Rightarrow> leaf ''$eq'' v)"

text \<open>A serialisation of values for the examples, in place of the runtime's
  \<^verbatim>\<open>JSON.stringify\<close> (no escapes inside strings).\<close>

fun spec_stringify :: "jv \<Rightarrow> string" where
  "spec_stringify JUndef = ''null''"
| "spec_stringify JNull = ''null''"
| "spec_stringify (JBool b) = (if b then ''true'' else ''false'')"
| "spec_stringify (JNum n) = decimal n"
| "spec_stringify (JStr s) = [CHR 0x22] @ s @ [CHR 0x22]"
| "spec_stringify (JArr xs) = ''['' @ join '','' (map spec_stringify xs) @ '']''"
| "spec_stringify (JObj kvs) =
     ''{'' @ join '','' (map (\<lambda>(k, v). [CHR 0x22] @ k @ [CHR 0x22] @ '':'' @ spec_stringify v) kvs)
       @ ''}''"

definition spec_collab :: collab where
  "spec_collab =
     \<lparr> addTicks = spec_addTicks, quoteTable = spec_quoteTable,
       quoteIdentifiers = spec_quoteTable, escape = spec_escape,
       getWhereConditions = spec_getWhereConditions, insertQuery = spec_insertQuery,
       defaultValueSchemable = spec_defaultValueSchemable, formatReferences = (\<lambda>a. a),
       underscore = (\<lambda>s. s), absWhereItemQuery = spec_absWhereItemQuery,
       absHandleSequelizeMethod = (\<lambda>sql. sql), toUpperCase = ascii_upper,
       stringify = spec_stringify, numberToString = decimal \<rparr>"

section \<open>Identifier quoting\<close>

definition quoteIdentifier :: "collab \<Rightarrow> string \<Rightarrow> string" where
  "quoteIdentifier P identifier =
     (if identifier = ''*'' then identifier else addTicks P identifier ''`'')"

section \<open>deleteQuery\<close>

text \<open>
  \<^verbatim>\<open>deleteQuery(tableName, where, options)\<close>. The options object is mutable: the
  function returns the query together with the object as the call leaves it. A missing
  options argument (\<^verbatim>\<open>options || {}\<close>) is a fresh empty object.
\<close>

definition deleteQuery ::
  "collab \<Rightarrow> tname \<Rightarrow> jv \<Rightarrow> obj option \<Rightarrow> string \<times> obj" where
  "deleteQuery P tableName wh options =
     (let options = (case options of None \<Rightarrow> [] | Some ob \<Rightarrow> ob);
          table = quoteTable P tableName
      in if get_prop options ''truncate'' = JBool True then (''TRUNCATE '' @ table, options)
         else
           let wh = getWhereConditions P wh;
               options = (if get_prop options ''limit'' = JUndef
                          then set_prop options ''limit'' (JNum 1) else options);
               limit = (if truthy (get_prop options ''limit'')
                        then '' LIMIT '' @ escape P (get_prop options ''limit'') else []);
               query = ''DELETE FROM '' @ table;
               query = (if wh \<noteq> [] then query @ '' WHERE '' @ wh else query);
               query = query @ limit
           in (query, options))"

text \<open>The limit \<^verbatim>\<open>deleteQuery\<close> works with: \<^verbatim>\<open>options.limit\<close>, or 1 when it is unset.\<close>

definition effective_limit :: "obj \<Rightarrow> jv" where
  "effective_limit opts =
     (if get_prop opts ''limit'' = JUndef then JNum 1 else get_prop opts ''limit'')"

section \<open>upsertQuery\<close>

text \<open>
  \<^verbatim>\<open>upsertQuery(tableName, insertValues, updateValues, where, rawAttributes, options)\<close>
  writes \<^verbatim>\<open>options.onDuplicate\<close> and hands the same object to \<^verbatim>\<open>insertQuery\<close>; the
  options object is returned with the query. \<^verbatim>\<open>attrs\<close> stands for the parameter
  \<^verbatim>\<open>rawAttributes\<close>. The line the function prints on the console is not part of the
  modelled state.
\<close>

definition upsertClause :: "collab \<Rightarrow> string \<Rightarrow> string" where
  "upsertClause P k = (let k = quoteIdentifier P k in k @ ''=VALUES('' @ k @ '')'')"

definition upsertQuery ::
  "collab \<Rightarrow> tname \<Rightarrow> jv \<Rightarrow> obj \<Rightarrow> jv \<Rightarrow> jv \<Rightarrow> obj \<Rightarrow> string \<times> obj" where
  "upsertQuery P tableName insertValues updateValues wh attrs options =
     (let options = set_prop options ''onDuplicate'' (JStr ''UPDATE '');
          options = set_prop options ''onDuplicate''
            (JStr (js_toString (numberToString P) (get_prop options ''onDuplicate'')
                   @ join '', '' (map (upsertClause P) (map fst updateValues))))
      in (insertQuery P tableName insertValues attrs options, options))"

section \<open>attributeToSQL\<close>

text \<open>
  Every \<^verbatim>\<open>if (c) template += x\<close> of the source appends \<^verbatim>\<open>x\<close> or nothing;
  \<^verbatim>\<open>when_set\<close> is that for a string property, which counts when it is present and not
  empty.
\<close>

definition when_set :: "string option \<Rightarrow> (string \<Rightarrow> string) \<Rightarrow> string" where
  "when_set x f = (case x of None \<Rightarrow> [] | Some s \<Rightarrow> if s = [] then [] else f s)"

definition attributeToSQL ::
  "collab \<Rightarrow> attribute_arg \<Rightarrow> attribute_options option \<Rightarrow> error + string" where
  "attributeToSQL P attribute options =
     (let attribute = (case attribute of Bare t \<Rightarrow> bare_attribute t | Desc a \<Rightarrow> a);
          template = type_toString (type attribute) (escape P);
          template = template @ (if allowNull attribute = JBool False then '' NOT NULL'' else []);
          template = template @ (if truthy (autoIncrement attribute) then '' auto_increment''
                                 else []);
          template = template
            @ (if \<not> type_is_string (type attribute) ''TEXT''
                  \<and> type_binary (type attribute) \<noteq> JBool True
                  \<and> defaultValueSchemable P (defaultValue attribute)
               then '' DEFAULT '' @ escape P (defaultValue attribute) else []);
          template = template @ (if unique attribute = JBool True then '' UNIQUE'' else []);
          template = template @ (if truthy (primaryKey attribute) then '' PRIMARY KEY'' else []);
          template = template
            @ when_set (after attribute) (\<lambda>a. '' AFTER '' @ quoteIdentifier P a)
      in if references attribute \<noteq> None then
           (let attribute = formatReferences P attribute
            in case references attribute of
                 None \<Rightarrow> Inl TypeError
               | Some r \<Rightarrow>
                   let template = template
                         @ (case options of
                              None \<Rightarrow> []
                            | Some ob \<Rightarrow>
                                if context_name ob = JStr ''addColumn''
                                then when_set (foreignKey ob)
                                  (\<lambda>attrName. '', ADD CONSTRAINT ''
                                     @ quoteIdentifier P (attrName @ ''_foreign_idx'')
                                     @ '' FOREIGN KEY ('' @ quoteIdentifier P attrName @ '')'')
                                else []);
                       template = template @ '' REFERENCES '' @ quoteTable P (model r);
                       template = template
                         @ (if str_truthy (key r)
                            then when_set (key r) (\<lambda>k. '' ('' @ quoteIdentifier P k @ '')'')
                            else '' ('' @ quoteIdentifier P ''id'' @ '')'');
                       template = template
                         @ when_set (onDelete attribute) (\<lambda>a. '' ON DELETE '' @ toUpperCase P a);
                       template = template
                         @ when_set (onUpdate attribute) (\<lambda>a. '' ON UPDATE '' @ toUpperCase P a)
                   in Inr template)
         else Inr template)"

section \<open>createTableQuery\<close>

text \<open>
  The loop over the columns keeps three things: \<^verbatim>\<open>primaryKeys\<close>, the object
  \<^verbatim>\<open>foreignKeys\<close> and \<^verbatim>\<open>attrStr\<close>. Reading a group of a failed match is a
  \<^verbatim>\<open>TypeError\<close>. An assignment to the property \<^verbatim>\<open>__proto__\<close> of the plain object
  \<^verbatim>\<open>foreignKeys\<close> reaches the setter of \<^verbatim>\<open>Object.prototype\<close>, which ignores a
  string.
\<close>

type_synonym columns_state = "string list \<times> (string \<times> string) list \<times> string list"

definition set_foreignKey ::
  "(string \<times> string) list \<Rightarrow> string \<Rightarrow> string \<Rightarrow> (string \<times> string) list" where
  "set_foreignKey foreignKeys attr v =
     (if attr = ''__proto__'' then foreignKeys else AList.update attr v foreignKeys)"

definition column_step ::
  "collab \<Rightarrow> string \<times> string \<Rightarrow> columns_state \<Rightarrow> error + columns_state" where
  "column_step P column st =
     (case column of (attr, dataType) \<Rightarrow>
      case st of (primaryKeys, foreignKeys, attrStr) \<Rightarrow>
        if str_includes dataType ''PRIMARY KEY'' then
          (let primaryKeys = primaryKeys @ [attr]
           in if str_includes dataType ''REFERENCES'' then
                (case match_references dataType of
                   None \<Rightarrow> Inl TypeError
                 | Some (m1, m2) \<Rightarrow>
                     Inr (primaryKeys, set_foreignKey foreignKeys attr m2,
                          attrStr @ [quoteIdentifier P attr @ '' ''
                                      @ replace_first m1 ''PRIMARY KEY'']))
              else Inr (primaryKeys, foreignKeys,
                        attrStr @ [quoteIdentifier P attr @ '' ''
                                    @ replace_first dataType ''PRIMARY KEY'']))
        else if str_includes dataType ''REFERENCES'' then
          (case match_references dataType of
             None \<Rightarrow> Inl TypeError
           | Some (m1, m2) \<Rightarrow>
               Inr (primaryKeys, set_foreignKey foreignKeys attr m2,
                    attrStr @ [quoteIdentifier P attr @ '' '' @ m1]))
        else Inr (primaryKeys, foreignKeys, attrStr @ [quoteIdentifier P attr @ '' '' @ dataType]))"

fun columns_loop ::
  "collab \<Rightarrow> (string \<times> string) list \<Rightarrow> columns_state \<Rightarrow> error + columns_state" where
  "columns_loop P [] st = Inr st"
| "columns_loop P (column # rest) st =
     (case column_step P column st of
        Inl e \<Rightarrow> Inl e
      | Inr st' \<Rightarrow> columns_loop P rest st')"

text \<open>One entry of \<^verbatim>\<open>options.uniqueKeys\<close>; the index name is \<^verbatim>\<open>None\<close> for the entry
  of an array, whose key is a number and not a string.\<close>

definition unique_clause ::
  "collab \<Rightarrow> tname \<Rightarrow> string option \<Rightarrow> unique_key \<Rightarrow> string" where
  "unique_clause P tableName indexName columns =
     (if \<not> truthy (singleField columns) then
        (let indexName =
               (case indexName of
                  Some n \<Rightarrow> n
                | None \<Rightarrow> ''uniq_'' @ tname_toString tableName @ ''_''
                           @ join ''_'' (index_fields columns))
         in '', UNIQUE '' @ quoteIdentifier P indexName @ '' (''
              @ join '', '' (map (quoteIdentifier P) (index_fields columns)) @ '')'')
      else [])"

definition unique_clauses :: "collab \<Rightarrow> tname \<Rightarrow> unique_keys option \<Rightarrow> string" where
  "unique_clauses P tableName uks =
     (case uks of
        None \<Rightarrow> []
      | Some (UniqueObject kvs) \<Rightarrow>
          concat (map (\<lambda>(indexName, columns). unique_clause P tableName (Some indexName) columns) kvs)
      | Some (UniqueArray cs) \<Rightarrow> concat (map (unique_clause P tableName None) cs))"

definition primary_key_clause :: "collab \<Rightarrow> string list \<Rightarrow> string" where
  "primary_key_clause P primaryKeys =
     (let pkString = join '', '' (map (quoteIdentifier P) primaryKeys)
      in if pkString \<noteq> [] then '', PRIMARY KEY ('' @ pkString @ '')'' else [])"

definition foreign_key_clause :: "collab \<Rightarrow> string \<times> string \<Rightarrow> string" where
  "foreign_key_clause P fk =
     (case fk of (fkey, refs) \<Rightarrow> '', FOREIGN KEY ('' @ quoteIdentifier P fkey @ '') '' @ refs)"

text \<open>The table-level suffixes that follow \<^verbatim>\<open>ENGINE=\<close>.\<close>

definition table_suffix :: "collab \<Rightarrow> create_options \<Rightarrow> string" where
  "table_suffix P options =
     (let engine = (case engine options of None \<Rightarrow> JStr ''InnoDB'' | Some v \<Rightarrow> v);
          charset = (case charset options of None \<Rightarrow> JNull | Some v \<Rightarrow> v)
      in interpolate (numberToString P) engine
         @ (case comment options of
              JStr c \<Rightarrow> if c \<noteq> [] then '' COMMENT '' @ escape P (JStr c) else []
            | _ \<Rightarrow> [])
         @ (if truthy charset then '' DEFAULT CHARSET='' @ js_toString (numberToString P) charset
            else [])
         @ (if truthy (collate options)
            then '' COLLATE '' @ js_toString (numberToString P) (collate options)
            else [])
         @ (if truthy (initialAutoIncrement options)
            then '' AUTO_INCREMENT=''
                   @ js_toString (numberToString P) (initialAutoIncrement options)
            else []))"

text \<open>
  \<^verbatim>\<open>createTableQuery(tableName, attributes, options)\<close>; \<^verbatim>\<open>attributes\<close> maps column
  names to raw type strings. A column named \<^verbatim>\<open>hasOwnProperty\<close> shadows the method the
  loop calls, which is then not a function.
\<close>

definition createTableQuery ::
  "collab \<Rightarrow> tname \<Rightarrow> (string \<times> string) list \<Rightarrow> create_options option \<Rightarrow> error + string" where
  "createTableQuery P tableName attributes options =
     (let options = (case options of None \<Rightarrow> no_create_options | Some ob \<Rightarrow> ob)
      in if ''hasOwnProperty'' \<in> set (map fst attributes) then Inl TypeError
         else case columns_loop P attributes ([], [], []) of
                Inl e \<Rightarrow> Inl e
              | Inr (primaryKeys, foreignKeys, attrStr) \<Rightarrow>
                  let attributes_text = join '', '' attrStr;
                      attributes_text = attributes_text
                        @ unique_clauses P tableName (uniqueKeys options);
                      attributes_text = attributes_text @ primary_key_clause P primaryKeys;
                      attributes_text = attributes_text
                        @ concat (map (foreign_key_clause P) foreignKeys)
                  in Inr (trim (''CREATE TABLE IF NOT EXISTS '' @ quoteTable P tableName
                                 @ '' ('' @ attributes_text @ '') ENGINE=''
                                 @ table_suffix P options) @ '';''))"

section \<open>ALTER TABLE and index statements\<close>

definition change_step ::
  "collab \<Rightarrow> string list \<times> string list \<Rightarrow> string \<times> string \<Rightarrow> string list \<times> string list" where
  "change_step P st column =
     (case st of (attrString, constraintString) \<Rightarrow>
      case column of (attributeName, definition) \<Rightarrow>
        if str_includes definition ''REFERENCES'' then
          (attrString,
           constraintString @ [quoteIdentifier P (attributeName @ ''_foreign_idx'')
             @ '' FOREIGN KEY ('' @ quoteIdentifier P attributeName @ '') ''
             @ strip_before_references definition])
        else
          (attrString @ [''`'' @ attributeName @ ''` `'' @ attributeName @ ''` '' @ definition],
           constraintString))"

definition changeColumnQuery :: "collab \<Rightarrow> tname \<Rightarrow> (string \<times> string) list \<Rightarrow> string" where
  "changeColumnQuery P tableName attributes =
     (case foldl (change_step P) ([], []) attributes of (attrString, constraintString) \<Rightarrow>
        let finalQuery = [];
            finalQuery =
              (if attrString \<noteq> []
               then finalQuery @ ''CHANGE '' @ join '', '' attrString
                      @ (if constraintString \<noteq> [] then '' '' else [])
               else finalQuery);
            finalQuery =
              (if constraintString \<noteq> []
               then finalQuery @ ''ADD CONSTRAINT '' @ join '', '' constraintString
               else finalQuery)
        in ''ALTER TABLE '' @ quoteTable P tableName @ '' '' @ finalQuery @ '';'')"

definition renameColumnQuery ::
  "collab \<Rightarrow> tname \<Rightarrow> string \<Rightarrow> (string \<times> string) list \<Rightarrow> string" where
  "renameColumnQuery P tableName attrBefore attributes =
     ''ALTER TABLE '' @ quoteTable P tableName @ '' CHANGE ''
       @ join '', '' (map (\<lambda>(attrName, definition).
                             ''`'' @ attrBefore @ ''` `'' @ attrName @ ''` '' @ definition)
                        attributes)
       @ '';''"

definition removeColumnQuery :: "collab \<Rightarrow> tname \<Rightarrow> string \<Rightarrow> string" where
  "removeColumnQuery P tableName attributeName =
     ''ALTER TABLE '' @ quoteTable P tableName @ '' DROP '' @ quoteIdentifier P attributeName @ '';''"

definition showIndexesQuery :: "collab \<Rightarrow> tname \<Rightarrow> obj option \<Rightarrow> string" where
  "showIndexesQuery P tableName options =
     (let database = get_prop (case options of None \<Rightarrow> [] | Some ob \<Rightarrow> ob) ''database''
      in ''SHOW INDEX FROM '' @ quoteTable P tableName
           @ (if truthy database
              then '' FROM `'' @ js_toString (numberToString P) database @ ''`'' else []))"

datatype index_arg = IndexName string | IndexAttributes "string list"

definition removeIndexQuery :: "collab \<Rightarrow> tname \<Rightarrow> index_arg \<Rightarrow> string" where
  "removeIndexQuery P tableName indexNameOrAttributes =
     (let indexName =
            (case indexNameOrAttributes of
               IndexName n \<Rightarrow> n
             | IndexAttributes cols \<Rightarrow>
                 underscore P (tname_toString tableName @ ''_'' @ join ''_'' cols))
      in ''DROP INDEX '' @ indexName @ '' ON '' @ quoteIdentifiers P tableName)"

section \<open>whereItemQuery\<close>

text \<open>\<^verbatim>\<open>s.split('::')[0]\<close>, \<^verbatim>\<open>key.split('.')\<close> and the cast suffix of the last path
  segment, which \<^verbatim>\<open>traverse\<close> cuts off in place.\<close>

fun before_cast :: "string \<Rightarrow> string" where
  "before_cast [] = []"
| "before_cast (c # cs) = (if starts_with ''::'' (c # cs) then [] else c # before_cast cs)"

fun split_dots :: "string \<Rightarrow> string list" where
  "split_dots [] = [[]]"
| "split_dots (c # cs) =
     (if c = CHR ''.'' then [] # split_dots cs
      else case split_dots cs of [] \<Rightarrow> [[c]] | seg # segs \<Rightarrow> (c # seg) # segs)"

definition strip_cast :: "string list \<Rightarrow> string list" where
  "strip_cast path =
     (if path \<noteq> [] \<and> str_includes (last path) ''::''
      then path[length path - 1 := before_cast (last path)] else path)"

definition base_key :: "string \<Rightarrow> string list \<Rightarrow> string" where
  "base_key prefixedKey path = prefixedKey @ ''->>'$.'' @ join ''.'' path @ [CHR 0x27]"

text \<open>\<^verbatim>\<open>Dottie.set({}, path, v)\<close> for a non-empty path: the nested object that holds
  \<^verbatim>\<open>v\<close> at the path.\<close>

fun dottie_set :: "string list \<Rightarrow> jv \<Rightarrow> jv" where
  "dottie_set [] v = JObj []"
| "dottie_set [p] v = JObj [(p, v)]"
| "dottie_set (p # q # ps) v = JObj [(p, dottie_set (q # ps) v)]"

text \<open>
  \<^verbatim>\<open>this.whereItemQuery(new Utils.Literal(baseKey), where)\<close>, the call \<^verbatim>\<open>traverse\<close>
  makes. No options are passed, so \<^verbatim>\<open>field\<close> and \<^verbatim>\<open>fieldType\<close> are undefined, the key
  is not a string and the test for the JSON branch fails: the call is the last line of
  \<^verbatim>\<open>whereItemQuery\<close>, the abstract compiler on the literal key, \<^verbatim>\<open>where\<close> and
  \<^verbatim>\<open>{}\<close>.
\<close>

definition whereItemQuery_literal :: "collab \<Rightarrow> string \<Rightarrow> obj \<Rightarrow> string" where
  "whereItemQuery_literal P baseKey wh = absWhereItemQuery P (KLit baseKey) (JObj wh) no_where_options"

text \<open>
  \<^verbatim>\<open>traverse(prop, item, path)\<close> pushes onto the shared array \<^verbatim>\<open>items\<close>, which is
  passed and returned. \<^verbatim>\<open>traverse_props\<close> is its \<^verbatim>\<open>_.forOwn\<close> over the properties of
  an object; \<^verbatim>\<open>wh\<close> is the object \<^verbatim>\<open>where\<close>, created once per call of
  \<^verbatim>\<open>traverse\<close> and written by every \<^verbatim>\<open>$\<close> key of the object.
\<close>

fun traverse :: "collab \<Rightarrow> string \<Rightarrow> jv \<Rightarrow> string list \<Rightarrow> string list \<Rightarrow> string list"
  and traverse_props ::
    "collab \<Rightarrow> string \<Rightarrow> (string \<times> jv) list \<Rightarrow> string list \<Rightarrow> obj \<Rightarrow> string list \<Rightarrow> string list"
where
  "traverse P prefixedKey (JObj kvs) path items =
     traverse_props P prefixedKey kvs (strip_cast path) [] items"
| "traverse P prefixedKey item path items =
     items @ [whereItemQuery_literal P (base_key prefixedKey (strip_cast path)) [(''$eq'', item)]]"
| "traverse_props P prefixedKey [] path wh items = items"
| "traverse_props P prefixedKey ((prop, item) # rest) path wh items =
     (if starts_with ''$'' prop then
        (let wh = set_prop wh prop item
         in traverse_props P prefixedKey rest path wh
              (items @ [whereItemQuery_literal P (base_key prefixedKey path) wh]))
      else traverse_props P prefixedKey rest path wh
             (traverse P prefixedKey item (path @ [prop]) items))"

text \<open>
  The \<^verbatim>\<open>_.forOwn\<close> over the properties of \<^verbatim>\<open>value\<close>. \<^verbatim>\<open>self\<close> is the call
  \<^verbatim>\<open>this.whereItemQuery(key, where, _.assign({}, options, {json: false}))\<close> on a fresh
  \<^verbatim>\<open>where\<close>, which may fault.
\<close>

fun value_props ::
  "(jv \<Rightarrow> error + string) \<Rightarrow> (string \<Rightarrow> jv \<Rightarrow> string list \<Rightarrow> string list)
     \<Rightarrow> (string \<times> jv) list \<Rightarrow> string list \<Rightarrow> error + string list" where
  "value_props self trav [] items = Inr items"
| "value_props self trav ((prop, item) # rest) items =
     (if starts_with ''$'' prop then
        (case self (JObj [(prop, item)]) of
           Inl e \<Rightarrow> Inl e
         | Inr s \<Rightarrow> value_props self trav rest (items @ [s]))
      else value_props self trav rest (trav prop item items))"

text \<open>The first two statements: \<^verbatim>\<open>field\<close> and \<^verbatim>\<open>fieldType\<close>.\<close>

definition lookup_attribute :: "(string \<times> attribute) list option \<Rightarrow> string \<Rightarrow> attribute option" where
  "lookup_attribute m k = (case m of None \<Rightarrow> None | Some al \<Rightarrow> map_of al k)"

definition resolve_field :: "where_options \<Rightarrow> string \<Rightarrow> attribute option" where
  "resolve_field options k =
     (case opt_field options of
        Some f \<Rightarrow> Some f
      | None \<Rightarrow>
          (case opt_model options of
             None \<Rightarrow> None
           | Some m \<Rightarrow>
               (case lookup_attribute (rawAttributes m) k of
                  Some f \<Rightarrow> Some f
                | None \<Rightarrow> lookup_attribute (fieldRawAttributesMap m) k)))"

definition resolve_type :: "where_options \<Rightarrow> attribute option \<Rightarrow> dtype option" where
  "resolve_type options fld =
     (case opt_type options of
        Some t \<Rightarrow> if type_is_string t [] then map_option type fld else Some t
      | None \<Rightarrow> map_option type fld)"

text \<open>
  The rewriting of a dotted key whose first segment names a JSON attribute of the model:
  the new key, value, field and field type. Reading \<^verbatim>\<open>rawAttributes[...]\<close> of a model
  without \<^verbatim>\<open>rawAttributes\<close> is a \<^verbatim>\<open>TypeError\<close>.
\<close>

definition dotted_key ::
  "where_options \<Rightarrow> string \<Rightarrow> jv \<Rightarrow> dtype option \<Rightarrow> error + string \<times> jv \<times> dtype option" where
  "dotted_key options k v fieldType =
     (if k \<noteq> [] \<and> CHR ''.'' \<in> set k \<and> opt_model options \<noteq> None then
        (case opt_model options of
           None \<Rightarrow> Inr (k, v, fieldType)
         | Some m \<Rightarrow>
             (case rawAttributes m of
                None \<Rightarrow> Inl TypeError
              | Some al \<Rightarrow>
                  (case map_of al (hd (split_dots k)) of
                     None \<Rightarrow> Inr (k, v, fieldType)
                   | Some fld \<Rightarrow>
                       if instanceof_JSON (type fld)
                       then Inr (case field fld of
                                   None \<Rightarrow> hd (split_dots k)
                                 | Some f \<Rightarrow> if f = [] then hd (split_dots k) else f,
                                 dottie_set (tl (split_dots k)) v,
                                 Some (type fld))
                       else Inr (k, v, fieldType))))
      else Inr (k, v, fieldType))"

definition prefix_text :: "collab \<Rightarrow> prefix_arg option \<Rightarrow> string" where
  "prefix_text P p =
     (case p of
        None \<Rightarrow> []
      | Some (PrefixLiteral sql) \<Rightarrow> absHandleSequelizeMethod P sql @ ''.''
      | Some (PrefixTable t) \<Rightarrow> if t = TableStr [] then [] else quoteTable P t @ ''.'')"

definition is_json_type :: "dtype option \<Rightarrow> bool" where
  "is_json_type t = (case t of None \<Rightarrow> False | Some ty \<Rightarrow> instanceof_JSON ty)"

text \<open>\<^verbatim>\<open>items.join(' AND ')\<close>, in parentheses when there is more than one item.\<close>

definition join_items :: "string list \<Rightarrow> string" where
  "join_items items =
     (let result = join '' AND '' items
      in if length items > 1 then ''('' @ result @ '')'' else result)"

text \<open>
  \<^verbatim>\<open>whereItemQuery(key, value, options)\<close> for a string key. It calls itself only with
  \<^verbatim>\<open>json: false\<close>, from a call where \<^verbatim>\<open>json\<close> is not \<^verbatim>\<open>false\<close>.
\<close>

function whereItemQuery ::
  "collab \<Rightarrow> string \<Rightarrow> jv \<Rightarrow> where_options option \<Rightarrow> error + string" where
  "whereItemQuery P k v options =
     (case dotted_key (case options of None \<Rightarrow> no_where_options | Some ob \<Rightarrow> ob) k v
             (resolve_type (case options of None \<Rightarrow> no_where_options | Some ob \<Rightarrow> ob)
                (resolve_field (case options of None \<Rightarrow> no_where_options | Some ob \<Rightarrow> ob) k)) of
        Inl e \<Rightarrow> Inl e
      | Inr (k', v', fieldType) \<Rightarrow>
          (case v' of
             JObj kvs \<Rightarrow>
               if is_json_type fieldType then
                 if json (case options of None \<Rightarrow> no_where_options | Some ob \<Rightarrow> ob) \<noteq> JBool False
                 then
                   (case value_props
                           (\<lambda>wh. whereItemQuery P k' wh
                              (Some ((case options of None \<Rightarrow> no_where_options | Some ob \<Rightarrow> ob)
                                       \<lparr>json := JBool False\<rparr>)))
                           (\<lambda>prop item items.
                              traverse P
                                (prefix_text P
                                   (prefix (case options of None \<Rightarrow> no_where_options | Some ob \<Rightarrow> ob))
                                 @ quoteIdentifier P k')
                                item [prop] items)
                           kvs [] of
                      Inl e \<Rightarrow> Inl e
                    | Inr items \<Rightarrow> Inr (join_items items))
                 else if truthy (get_prop kvs ''$contains'')
                 then Inr (''JSON_CONTAINS(''
                        @ prefix_text P
                            (prefix (case options of None \<Rightarrow> no_where_options | Some ob \<Rightarrow> ob))
                        @ quoteIdentifier P k' @ '', '' @ [CHR 0x27]
                        @ stringify P (get_prop kvs ''$contains'') @ [CHR 0x27] @ '')'')
                 else Inr (absWhereItemQuery P (KStr k') v'
                             (case options of None \<Rightarrow> no_where_options | Some ob \<Rightarrow> ob))
               else Inr (absWhereItemQuery P (KStr k') v'
                           (case options of None \<Rightarrow> no_where_options | Some ob \<Rightarrow> ob))
           | _ \<Rightarrow> Inr (absWhereItemQuery P (KStr k') v'
                        (case options of None \<Rightarrow> no_where_options | Some ob \<Rightarrow> ob))))"
  by pat_completeness auto
termination
  by (relation "measure (\<lambda>(P, k, v, options).
        if json (case options of None \<Rightarrow> no_where_options | Some ob \<Rightarrow> ob) = JBool False
        then 0 else 1)") auto

declare whereItemQuery.simps [simp del]

text \<open>
  What \<^verbatim>\<open>traverse\<close> contributes, said without the shared array: the fragments of a
  value at a path, in the order of the traversal. A value that is not a plain object is one
  equality leaf on the path. In an object, a key that starts with \<^verbatim>\<open>$\<close> is one operator
  leaf on the path of the object, its operator map holding the \<^verbatim>\<open>$\<close> keys of the object
  up to this one; every other key extends the path by the key without its cast suffix.
\<close>

fun path_fragments :: "collab \<Rightarrow> string \<Rightarrow> string list \<Rightarrow> jv \<Rightarrow> string list"
  and object_fragments ::
    "collab \<Rightarrow> string \<Rightarrow> string list \<Rightarrow> obj \<Rightarrow> (string \<times> jv) list \<Rightarrow> string list"
where
  "path_fragments P prefixedKey path (JObj kvs) = object_fragments P prefixedKey path [] kvs"
| "path_fragments P prefixedKey path v =
     [absWhereItemQuery P (KLit (base_key prefixedKey path)) (JObj [(''$eq'', v)])
        no_where_options]"
| "object_fragments P prefixedKey path ops [] = []"
| "object_fragments P prefixedKey path ops ((k, v) # rest) =
     (if starts_with ''$'' k
      then absWhereItemQuery P (KLit (base_key prefixedKey path)) (JObj (set_prop ops k v))
             no_where_options
           # object_fragments P prefixedKey path (set_prop ops k v) rest
      else path_fragments P prefixedKey (path @ [before_cast k]) v
           @ object_fragments P prefixedKey path ops rest)"

text \<open>The fragment of a \<^verbatim>\<open>$\<close> key of \<^verbatim>\<open>value\<close> itself, where no path has been
  entered: it goes through the \<^verbatim>\<open>json: false\<close> mode on the column.\<close>

definition column_operator ::
  "collab \<Rightarrow> string \<Rightarrow> where_options \<Rightarrow> string \<Rightarrow> jv \<Rightarrow> string" where
  "column_operator P k options op v =
     (if op = ''$contains'' \<and> truthy v
      then ''JSON_CONTAINS('' @ prefix_text P (prefix options) @ quoteIdentifier P k @ '', ''
             @ [CHR 0x27] @ stringify P v @ [CHR 0x27] @ '')''
      else absWhereItemQuery P (KStr k) (JObj [(op, v)]) (options \<lparr>json := JBool False\<rparr>))"

text \<open>The leaves of a nested object with their paths: the keys on the way, each without
  its cast suffix.\<close>

fun leaves :: "string list \<Rightarrow> jv \<Rightarrow> (string list \<times> jv) list"
  and object_leaves :: "string list \<Rightarrow> (string \<times> jv) list \<Rightarrow> (string list \<times> jv) list"
where
  "leaves path (JObj kvs) = object_leaves path kvs"
| "leaves path v = [(path, v)]"
| "object_leaves path [] = []"
| "object_leaves path ((k, v) # rest) = leaves (path @ [before_cast k]) v @ object_leaves path rest"

text \<open>No key of the value, at any depth, starts with \<^verbatim>\<open>$\<close>.\<close>

fun plain_keys :: "jv \<Rightarrow> bool"
  and plain_object :: "(string \<times> jv) list \<Rightarrow> bool"
where
  "plain_keys (JObj kvs) = plain_object kvs"
| "plain_keys v = True"
| "plain_object [] = True"
| "plain_object ((k, v) # rest) = (\<not> starts_with ''$'' k \<and> plain_keys v \<and> plain_object rest)"

text \<open>
  The column of a call is JSON-typed when the field type the call resolves is an instance
  of \<^verbatim>\<open>DataTypes.JSON\<close>; the key is taken as the column when it is not rewritten (it
  has no dot, or there is no model).
\<close>

definition json_column :: "where_options \<Rightarrow> string \<Rightarrow> bool" where
  "json_column options k =
     (is_json_type (resolve_type options (resolve_field options k))
      \<and> (CHR ''.'' \<notin> set k \<or> opt_model options = None))"

text \<open>A JSON type object, and the options that give a column this type.\<close>

definition json_dtype :: dtype where
  "json_dtype = TypeObj (\<lambda>esc. ''JSON'') JUndef True"

definition json_options :: where_options where
  "json_options = no_where_options \<lparr>opt_type := Some json_dtype\<rparr>"

section \<open>Properties of objects\<close>

lemmas spec_collab_simps = spec_collab_def spec_addTicks_def spec_quoteTable_def spec_escape_def
  spec_getWhereConditions_def spec_insertQuery_def spec_defaultValueSchemable_def

lemma get_prop_Nil: "get_prop [] k = JUndef"
  by (simp add: get_prop_def)

lemma get_set_same: "get_prop (set_prop ob k v) k = v"
  by (simp add: get_prop_def set_prop_def update_conv')

lemma get_set_other: "k' \<noteq> k \<Longrightarrow> get_prop (set_prop ob k v) k' = get_prop ob k'"
  by (simp add: get_prop_def set_prop_def update_conv')

lemma set_set_same: "set_prop (set_prop ob k v) k v' = set_prop ob k v'"
  by (simp add: set_prop_def)

section \<open>deleteQuery: TRUNCATE, the default limit and the options object\<close>

text \<open>
  C4. When \<^verbatim>\<open>options.truncate === true\<close>, \<^verbatim>\<open>deleteQuery\<close> returns exactly
  \<^verbatim>\<open>TRUNCATE\<close> followed by the quoted table name: no WHERE and no LIMIT clause, whatever
  the where argument and the other options (a limit included) are. The options object is
  left as it was.
\<close>

theorem deleteQuery_truncate:
  "get_prop opts ''truncate'' = JBool True \<Longrightarrow>
     deleteQuery P t w (Some opts) = (''TRUNCATE '' @ quoteTable P t, opts)"
  by (simp add: deleteQuery_def)

theorem deleteQuery_truncate_witness:
  "deleteQuery spec_collab (TableStr ''t'') (JStr ''id = 1'')
       (Some [(''truncate'', JBool True), (''limit'', JNum 10)])
     = (''TRUNCATE `t`'', [(''truncate'', JBool True), (''limit'', JNum 10)])"
  using deleteQuery_truncate [of "[(''truncate'', JBool True), (''limit'', JNum 10)]"
      spec_collab "TableStr ''t''" "JStr ''id = 1''"]
  by (simp add: get_prop_def spec_collab_def spec_quoteTable_def spec_addTicks_def)



text \<open>
  C10. \<^verbatim>\<open>deleteQuery\<close> writes to the options object of its caller: when
  \<^verbatim>\<open>options.limit\<close> is undefined and \<^verbatim>\<open>options.truncate\<close> is not \<^verbatim>\<open>true\<close>, the
  object the call leaves behind is the caller's with \<^verbatim>\<open>limit\<close> set to 1, so the caller
  reads \<^verbatim>\<open>options.limit === 1\<close>. No other property is changed, in any call.
\<close>

theorem deleteQuery_mutates_limit:
  "(get_prop opts ''limit'' = JUndef \<and> get_prop opts ''truncate'' \<noteq> JBool True \<longrightarrow>
      snd (deleteQuery P t w (Some opts)) = set_prop opts ''limit'' (JNum 1)
      \<and> get_prop (snd (deleteQuery P t w (Some opts))) ''limit'' = JNum 1)
   \<and> (\<forall>k. k \<noteq> ''limit'' \<longrightarrow>
          get_prop (snd (deleteQuery P t w (Some opts))) k = get_prop opts k)"
  by (simp add: deleteQuery_def Let_def get_set_same get_set_other)

theorem deleteQuery_mutates_limit_witness:
  "snd (deleteQuery spec_collab (TableStr ''t'') JNull (Some [(''force'', JBool True)]))
     = [(''force'', JBool True), (''limit'', JNum 1)]"
  using deleteQuery_mutates_limit [of "[(''force'', JBool True)]" spec_collab "TableStr ''t''" JNull]
  by (simp add: get_prop_def set_prop_def)

section \<open>upsertQuery: the onDuplicate option\<close>

text \<open>
  C8. For every \<^verbatim>\<open>updateValues\<close>, \<^verbatim>\<open>upsertQuery\<close> sets \<^verbatim>\<open>options.onDuplicate\<close> to
  \<^verbatim>\<open>UPDATE\<close> and a space followed by one clause per key of \<^verbatim>\<open>updateValues\<close>, in key
  order and joined by a comma and a space, the clause of a key being its quoted name,
  \<^verbatim>\<open>=VALUES(\<close>, the quoted name again and \<^verbatim>\<open>)\<close>; it returns what the insert assembler
  returns on the options so set. There are as many clauses as keys.
\<close>

theorem upsertQuery_onDuplicate:
  "upsertQuery P t iv uv w ra opts =
     (let opts' = set_prop opts ''onDuplicate''
            (JStr (''UPDATE '' @ join '', ''
               (map (\<lambda>k. quoteIdentifier P k @ ''=VALUES('' @ quoteIdentifier P k @ '')'')
                  (map fst uv))))
      in (insertQuery P t iv ra opts', opts'))
   \<and> length (map (\<lambda>k. quoteIdentifier P k @ ''=VALUES('' @ quoteIdentifier P k @ '')'')
         (map fst uv))
       = length uv"
  by (simp add: upsertQuery_def Let_def get_set_same set_set_same upsertClause_def comp_def)

theorem upsertQuery_onDuplicate_witness:
  "upsertQuery spec_collab (TableStr ''t'') JNull [(''a'', JNum 1), (''b'', JNum 2)] JNull JNull []
    = (''INSERT INTO `t` ON DUPLICATE KEY UPDATE `a`=VALUES(`a`), `b`=VALUES(`b`)'',
       [(''onDuplicate'', JStr ''UPDATE `a`=VALUES(`a`), `b`=VALUES(`b`)'')])"
  using upsertQuery_onDuplicate [of spec_collab "TableStr ''t''" JNull
      "[(''a'', JNum 1), (''b'', JNum 2)]" JNull JNull "[]"]
  by (simp add: Let_def set_prop_def quoteIdentifier_def spec_collab_def spec_insertQuery_def
      spec_quoteTable_def spec_addTicks_def get_prop_def)

section \<open>createTableQuery: primary keys and references\<close>

text \<open>The example of the spec.\<close>

lemma createTableQuery_example: "createTableQuery spec_collab (TableStr ''users'')
      [(''id'', ''INTEGER PRIMARY KEY REFERENCES other (id)'')] None
   = Inr ''CREATE TABLE IF NOT EXISTS `users` (`id` INTEGER , PRIMARY KEY (`id`), FOREIGN KEY (`id`) REFERENCES other (id)) ENGINE=InnoDB;''"
  by (simp add: createTableQuery_def column_step_def match_references_def line_terminator_def
      set_foreignKey_def quoteIdentifier_def spec_collab_simps unique_clauses_def
      primary_key_clause_def foreign_key_clause_def table_suffix_def no_create_options_def
      interpolate_def trim_def white_space_def Let_def)

text \<open>
  C1. The claim: when the type string of a column contains \<^verbatim>\<open>PRIMARY KEY\<close> and
  \<^verbatim>\<open>REFERENCES\<close>, no \<^verbatim>\<open>REFERENCES\<close> text stays in the inline definition of the
  column, everything from the \<^verbatim>\<open>REFERENCES\<close> keyword onward being moved into a trailing
  \<^verbatim>\<open>FOREIGN KEY\<close> clause. The code splits the string with a greedy pattern, at the last
  \<^verbatim>\<open>REFERENCES\<close> that follows a space. On a type string with two of them (such as the
  one \<^verbatim>\<open>attributeToSQL\<close> writes for a table whose name contains the word) the first
  \<^verbatim>\<open>REFERENCES\<close> stays inline and only the text from the second one is moved, whatever
  the collaborators are.
\<close>

theorem createTableQuery_inline_references:
  "createTableQuery spec_collab (TableStr ''users'')
      [(''id'', ''INTEGER PRIMARY KEY REFERENCES a REFERENCES b'')] None
   = Inr ''CREATE TABLE IF NOT EXISTS `users` (`id` INTEGER  REFERENCES a, PRIMARY KEY (`id`), FOREIGN KEY (`id`) REFERENCES b) ENGINE=InnoDB;''
   \<and> createTableQuery spec_collab (TableStr ''users'')
      [(''id'', ''INTEGER PRIMARY KEY REFERENCES `x REFERENCES y` (`id`)'')] None
   = Inr ''CREATE TABLE IF NOT EXISTS `users` (`id` INTEGER  REFERENCES `x, PRIMARY KEY (`id`), FOREIGN KEY (`id`) REFERENCES y` (`id`)) ENGINE=InnoDB;''
   \<and> (\<forall>P. columns_loop P [(''id'', ''INTEGER PRIMARY KEY REFERENCES a REFERENCES b'')] ([], [], [])
          = Inr ([''id''], [(''id'', ''REFERENCES b'')],
                 [quoteIdentifier P ''id'' @ '' INTEGER  REFERENCES a'']))"
  by (simp add: createTableQuery_def column_step_def match_references_def line_terminator_def
      set_foreignKey_def quoteIdentifier_def spec_collab_simps unique_clauses_def
      primary_key_clause_def foreign_key_clause_def table_suffix_def no_create_options_def
      interpolate_def trim_def white_space_def Let_def)

section \<open>attributeToSQL: the DEFAULT clause\<close>

text \<open>
  C7. The claim: no \<^verbatim>\<open>DEFAULT\<close> clause for a large-text or binary type, whatever the
  default value. The test of the code reads \<^verbatim>\<open>type !== 'TEXT'\<close> and
  \<^verbatim>\<open>type._binary !== true\<close>. So the type \<^verbatim>\<open>'TEXT'\<close> gets no \<^verbatim>\<open>DEFAULT\<close>
  clause, but \<^verbatim>\<open>'BLOB'\<close>, \<^verbatim>\<open>'LONGTEXT'\<close> and a type object that renders as
  \<^verbatim>\<open>TEXT\<close> without a \<^verbatim>\<open>_binary\<close> property pass the test: for them the clause is
  written as soon as the default value is schemable.
\<close>

theorem attributeToSQL_default_on_blob:
  "(\<forall>P. attributeToSQL P
          (Desc ((bare_attribute (TypeStr ''BLOB'')) \<lparr>defaultValue := JStr ''x''\<rparr>)) None
        = Inr (''BLOB'' @ (if defaultValueSchemable P (JStr ''x'')
                           then '' DEFAULT '' @ escape P (JStr ''x'') else [])))
   \<and> attributeToSQL spec_collab
        (Desc ((bare_attribute (TypeStr ''BLOB'')) \<lparr>defaultValue := JStr ''x''\<rparr>)) None
      = Inr (''BLOB DEFAULT 'x'' @ [CHR 0x27])
   \<and> attributeToSQL spec_collab
        (Desc ((bare_attribute (TypeStr ''LONGTEXT'')) \<lparr>defaultValue := JStr ''x''\<rparr>)) None
      = Inr (''LONGTEXT DEFAULT 'x'' @ [CHR 0x27])
   \<and> attributeToSQL spec_collab
        (Desc ((bare_attribute (TypeObj (\<lambda>esc. ''TEXT'') JUndef False))
                 \<lparr>defaultValue := JStr ''x''\<rparr>)) None
      = Inr (''TEXT DEFAULT 'x'' @ [CHR 0x27])
   \<and> attributeToSQL spec_collab (Bare (TypeStr ''BLOB'')) None = Inr ''BLOB''
   \<and> attributeToSQL spec_collab
        (Desc ((bare_attribute (TypeStr ''TEXT'')) \<lparr>defaultValue := JStr ''x''\<rparr>)) None
      = Inr ''TEXT''"
  by (simp add: attributeToSQL_def bare_attribute_def when_set_def spec_collab_simps)

section \<open>Identifiers that bypass the escaper\<close>

text \<open>
  C9. The claim is that every identifier of a statement passes through
  \<^verbatim>\<open>quoteIdentifier\<close>, \<^verbatim>\<open>quoteTable\<close> or \<^verbatim>\<open>escape\<close>. The code pastes the column
  names of a \<^verbatim>\<open>CHANGE\<close> clause, both names of a rename, the database of
  \<^verbatim>\<open>showIndexesQuery\<close> and the index name of \<^verbatim>\<open>removeIndexQuery\<close> into the statement
  as they are: whatever the identifier quoting function and the value escaper do, a name
  with a backtick reaches the statement unchanged.
\<close>

theorem unquoted_identifiers:
  "\<forall>f e. changeColumnQuery (spec_collab \<lparr>addTicks := f, escape := e\<rparr>) (TableStr ''t'')
           [(''a`b'', ''INT'')]
         = ''ALTER TABLE `t` CHANGE `a`b` `a`b` INT;''
      \<and> renameColumnQuery (spec_collab \<lparr>addTicks := f, escape := e\<rparr>) (TableStr ''t'') ''a`b''
           [(''c`d'', ''INT'')]
         = ''ALTER TABLE `t` CHANGE `a`b` `c`d` INT;''
      \<and> showIndexesQuery (spec_collab \<lparr>addTicks := f, escape := e\<rparr>) (TableStr ''t'')
           (Some [(''database'', JStr ''x`y'')])
         = ''SHOW INDEX FROM `t` FROM `x`y`''
      \<and> removeIndexQuery (spec_collab \<lparr>addTicks := f, escape := e\<rparr>) (TableStr ''t'') (IndexName ''i`j'')
         = ''DROP INDEX i`j ON `t`''"
  by (simp add: changeColumnQuery_def change_step_def renameColumnQuery_def showIndexesQuery_def
      removeIndexQuery_def get_prop_def spec_collab_simps)

section \<open>whereItemQuery: the JSON branch\<close>

lemma before_cast_id: "\<not> str_includes s ''::'' \<Longrightarrow> before_cast s = s"
  by (induction s) (auto simp del: starts_with.simps)

lemma strip_cast_snoc: "strip_cast (path @ [k]) = path @ [before_cast k]"
  by (simp add: strip_cast_def before_cast_id)

lemma traverse_fragments:
  "path \<noteq> [] \<Longrightarrow>
     traverse P pk item path items = items @ path_fragments P pk (strip_cast path) item"
  "traverse_props P pk kvs path' wh items = items @ object_fragments P pk path' wh kvs"
  by (induction P pk item path items and P pk kvs path' wh items
      rule: traverse_traverse_props.induct)
    (simp_all add: strip_cast_snoc whereItemQuery_literal_def Let_def)


lemma dotted_key_column:
  "json_column options k \<Longrightarrow> dotted_key options k v ft = Inr (k, v, ft)"
  by (auto simp: json_column_def dotted_key_def)

lemma resolve_field_json_update [simp]:
  "resolve_field (options \<lparr>json := x\<rparr>) k = resolve_field options k"
  by (simp add: resolve_field_def split: option.splits)

lemma resolve_type_json_update [simp]:
  "resolve_type (options \<lparr>json := x\<rparr>) f = resolve_type options f"
  by (simp add: resolve_type_def split: option.splits)

lemma json_column_json_update [simp]:
  "json_column (options \<lparr>json := x\<rparr>) k = json_column options k"
  by (simp add: json_column_def)

lemma whereItemQuery_json_false:
  assumes "json_column options k" "json options = JBool False"
  shows "whereItemQuery P k (JObj kvs) (Some options) =
     Inr (if truthy (get_prop kvs ''$contains'')
          then ''JSON_CONTAINS('' @ prefix_text P (prefix options) @ quoteIdentifier P k @ '', ''
                 @ [CHR 0x27] @ stringify P (get_prop kvs ''$contains'') @ [CHR 0x27] @ '')''
          else absWhereItemQuery P (KStr k) (JObj kvs) options)"
proof -
  have "is_json_type (resolve_type options (resolve_field options k))"
    using assms(1) by (simp add: json_column_def)
  then show ?thesis
    using assms(2) dotted_key_column [OF assms(1)]
    by (subst whereItemQuery.simps) simp
qed

lemma value_props_total:
  assumes "\<And>wh. self wh = Inr (f wh)"
    and "\<And>p i xs. trav p i xs = xs @ g p i"
  shows "value_props self trav kvs items =
     Inr (items @ concat (map (\<lambda>(p, i). if starts_with ''$'' p then [f (JObj [(p, i)])] else g p i) kvs))"
  by (induction kvs arbitrary: items) (auto simp: assms)

lemma column_operator_eq:
  "(if truthy (get_prop [(op, v)] ''$contains'')
    then ''JSON_CONTAINS('' @ prefix_text P (prefix options) @ quoteIdentifier P k @ '', ''
           @ [CHR 0x27] @ stringify P (get_prop [(op, v)] ''$contains'') @ [CHR 0x27] @ '')''
    else absWhereItemQuery P (KStr k) (JObj [(op, v)]) (options \<lparr>json := JBool False\<rparr>))
   = column_operator P k options op v"
  by (auto simp: column_operator_def get_prop_def)

lemma whereItemQuery_json:
  assumes col: "json_column options k" and js: "json options \<noteq> JBool False"
  shows "whereItemQuery P k (JObj kvs) (Some options) =
     Inr (join_items (concat (map (\<lambda>(op, v).
            if starts_with ''$'' op then [column_operator P k options op v]
            else path_fragments P (prefix_text P (prefix options) @ quoteIdentifier P k)
                   [before_cast op] v) kvs)))"
proof -
  let ?pk = "prefix_text P (prefix options) @ quoteIdentifier P k"
  define f where "f wh =
      (case wh of JObj ops \<Rightarrow>
             (if truthy (get_prop ops ''$contains'')
              then ''JSON_CONTAINS('' @ prefix_text P (prefix options) @ quoteIdentifier P k @ '', ''
                     @ [CHR 0x27] @ stringify P (get_prop ops ''$contains'') @ [CHR 0x27] @ '')''
              else absWhereItemQuery P (KStr k) (JObj ops) (options \<lparr>json := JBool False\<rparr>))
           | _ \<Rightarrow> absWhereItemQuery P (KStr k) wh (options \<lparr>json := JBool False\<rparr>))" for wh
  have ty: "is_json_type (resolve_type options (resolve_field options k))"
    using col by (simp add: json_column_def)
  have self: "whereItemQuery P k wh (Some (options \<lparr>json := JBool False\<rparr>)) = Inr (f wh)" for wh
  proof (cases wh)
    case (JObj ops)
    then show ?thesis
      using whereItemQuery_json_false [of "options \<lparr>json := JBool False\<rparr>" k P ops] col
      by (simp add: f_def)
  qed (use col in \<open>subst whereItemQuery.simps, simp add: dotted_key_column f_def\<close>)+
  have trav: "traverse P ?pk i [p] xs = xs @ path_fragments P ?pk [before_cast p] i" for p i xs
    using traverse_fragments(1) [of "[p]" P ?pk i xs] strip_cast_snoc [of "[]" p] by simp
  have leaf: "f (JObj [(op, v)]) = column_operator P k options op v" for op v
    by (simp add: f_def column_operator_eq)
  have "value_props (\<lambda>wh. whereItemQuery P k wh (Some (options \<lparr>json := JBool False\<rparr>)))
          (\<lambda>p i xs. traverse P ?pk i [p] xs) kvs [] =
        Inr ([] @ concat (map (\<lambda>(p, i).
            if starts_with ''$'' p then [f (JObj [(p, i)])]
            else path_fragments P ?pk [before_cast p] i) kvs))"
    by (rule value_props_total [OF self trav])
  then have "value_props (\<lambda>wh. whereItemQuery P k wh (Some (options \<lparr>json := JBool False\<rparr>)))
          (\<lambda>p i xs. traverse P ?pk i [p] xs) kvs [] =
        Inr (concat (map (\<lambda>(op, v).
            if starts_with ''$'' op then [column_operator P k options op v]
            else path_fragments P ?pk [before_cast op] v) kvs))"
    by (simp only: leaf append_Nil)
  then show ?thesis
    using ty js dotted_key_column [OF col]
    by (subst whereItemQuery.simps) simp
qed

lemma object_fragments_leaves:
  "plain_keys v \<Longrightarrow>
     path_fragments P pk path v =
       map (\<lambda>(p, l). absWhereItemQuery P (KLit (base_key pk p)) (JObj [(''$eq'', l)]) no_where_options)
         (leaves path v)"
  "plain_object kvs \<Longrightarrow>
     object_fragments P pk path ops kvs =
       map (\<lambda>(p, l). absWhereItemQuery P (KLit (base_key pk p)) (JObj [(''$eq'', l)]) no_where_options)
         (object_leaves path kvs)"
  by (induction P pk path v and P pk path ops kvs rule: path_fragments_object_fragments.induct)
    simp_all

lemma plain_object_fragments:
  "plain_object kvs \<Longrightarrow>
     concat (map (\<lambda>(op, v).
            if starts_with ''$'' op then [column_operator P k options op v]
            else path_fragments P pk [before_cast op] v) kvs)
     = map (\<lambda>(p, l). absWhereItemQuery P (KLit (base_key pk p)) (JObj [(''$eq'', l)]) no_where_options)
         (object_leaves [] kvs)"
  by (induction kvs) (auto simp: object_fragments_leaves(1))

lemma json_column_json_options: "CHR ''.'' \<notin> set k \<Longrightarrow> json_column json_options k"
  by (simp add: json_column_def json_options_def no_where_options_def resolve_type_def
      json_dtype_def is_json_type_def)

lemma json_column_json_options_update:
  "CHR ''.'' \<notin> set k \<Longrightarrow> json_column (json_options \<lparr>json := x\<rparr>) k"
  by (simp add: json_column_json_options)




text \<open>
  C3. The claim: every key that starts with \<^verbatim>\<open>$\<close> is compiled as an operator leaf,
  \<^verbatim>\<open>{op: operand}\<close>, on the JSON-path expression reached so far. Among the properties
  of the value itself the code does so, on the column, with a fresh \<^verbatim>\<open>where\<close> object
  per key. Inside \<^verbatim>\<open>traverse\<close> one \<^verbatim>\<open>where\<close> object serves all the \<^verbatim>\<open>$\<close> keys
  of an object: the leaf of the second key of \<^verbatim>\<open>{a: {$gt: 1, $lt: 9}}\<close> is compiled
  from \<^verbatim>\<open>{$gt: 1, $lt: 9}\<close>, so that \<^verbatim>\<open>$gt\<close> is compiled twice.
\<close>

theorem whereItemQuery_shared_where:
  "(\<forall>P. whereItemQuery P ''data''
          (JObj [(''a'', JObj [(''$gt'', JNum 1), (''$lt'', JNum 9)])]) (Some json_options)
        = Inr (''('' @ join '' AND ''
                 [absWhereItemQuery P (KLit (quoteIdentifier P ''data'' @ ''->>'$.a'' @ [CHR 0x27]))
                    (JObj [(''$gt'', JNum 1)]) no_where_options,
                  absWhereItemQuery P (KLit (quoteIdentifier P ''data'' @ ''->>'$.a'' @ [CHR 0x27]))
                    (JObj [(''$gt'', JNum 1), (''$lt'', JNum 9)]) no_where_options]
               @ '')''))
   \<and> (\<forall>P. whereItemQuery P ''data''
          (JObj [(''$gt'', JNum 1), (''$lt'', JNum 9)]) (Some json_options)
        = Inr (''('' @ join '' AND ''
                 [absWhereItemQuery P (KStr ''data'') (JObj [(''$gt'', JNum 1)])
                    (json_options \<lparr>json := JBool False\<rparr>),
                  absWhereItemQuery P (KStr ''data'') (JObj [(''$lt'', JNum 9)])
                    (json_options \<lparr>json := JBool False\<rparr>)]
               @ '')''))
   \<and> whereItemQuery spec_collab ''data''
          (JObj [(''a'', JObj [(''$gt'', JNum 1), (''$lt'', JNum 9)])]) (Some json_options)
        = Inr (''(`data`->>'$.a' > '1' AND `data`->>'$.a' > '1' AND `data`->>'$.a' < '9'' @ [CHR 0x27] @ '')'')"
proof (intro conjI allI)
  fix P
  show "whereItemQuery P ''data''
          (JObj [(''a'', JObj [(''$gt'', JNum 1), (''$lt'', JNum 9)])]) (Some json_options)
        = Inr (''('' @ join '' AND ''
                 [absWhereItemQuery P (KLit (quoteIdentifier P ''data'' @ ''->>'$.a'' @ [CHR 0x27]))
                    (JObj [(''$gt'', JNum 1)]) no_where_options,
                  absWhereItemQuery P (KLit (quoteIdentifier P ''data'' @ ''->>'$.a'' @ [CHR 0x27]))
                    (JObj [(''$gt'', JNum 1), (''$lt'', JNum 9)]) no_where_options]
               @ '')'')"
    using whereItemQuery_json [of json_options "''data''" P
        "[(''a'', JObj [(''$gt'', JNum 1), (''$lt'', JNum 9)])]"]
      json_column_json_options [of "''data''"]
    by (simp add: json_options_def no_where_options_def prefix_text_def base_key_def
        join_items_def set_prop_def)
next
  fix P
  show "whereItemQuery P ''data''
          (JObj [(''$gt'', JNum 1), (''$lt'', JNum 9)]) (Some json_options)
        = Inr (''('' @ join '' AND ''
                 [absWhereItemQuery P (KStr ''data'') (JObj [(''$gt'', JNum 1)])
                    (json_options \<lparr>json := JBool False\<rparr>),
                  absWhereItemQuery P (KStr ''data'') (JObj [(''$lt'', JNum 9)])
                    (json_options \<lparr>json := JBool False\<rparr>)]
               @ '')'')"
    using whereItemQuery_json [of json_options "''data''" P
        "[(''$gt'', JNum 1), (''$lt'', JNum 9)]"]
      json_column_json_options [of "''data''"]
    by (simp add: json_options_def no_where_options_def prefix_text_def base_key_def
        join_items_def set_prop_def column_operator_def)
next
  show "whereItemQuery spec_collab ''data''
          (JObj [(''a'', JObj [(''$gt'', JNum 1), (''$lt'', JNum 9)])]) (Some json_options)
        = Inr (''(`data`->>'$.a' > '1' AND `data`->>'$.a' > '1' AND `data`->>'$.a' < '9'' @ [CHR 0x27] @ '')'')"
    using whereItemQuery_json [of json_options "''data''" spec_collab
        "[(''a'', JObj [(''$gt'', JNum 1), (''$lt'', JNum 9)])]"]
      json_column_json_options [of "''data''"]
    by (simp add: json_options_def no_where_options_def prefix_text_def base_key_def
        join_items_def set_prop_def quoteIdentifier_def
        spec_collab_simps spec_absWhereItemQuery_def spec_operator_def decimal_def dec.simps)
qed




end
